theory Spec2Isabelle
  imports Main "HOL-Library.Sublist"
begin

section \<open>The \<^verbatim>\<open>tail\<close> command of cloudflared: data model\<close>

text \<open>
  The embedding follows \<^verbatim>\<open>cmd/cloudflared/tail/cmd.go\<close>. Everything the command does
  beyond returning a value is written to a list of actions, in the order the calls are
  made: logger calls, writes to standard output, and calls on the connection, the
  signal package and the timer.
\<close>

subsection \<open>Errors and library constants\<close>

text \<open>
  A Go \<^verbatim>\<open>error\<close> value. \<^verbatim>\<open>websocket.CloseError\<close> carries a status code and a reason;
  every other error is kept by its text.
\<close>

datatype go_error = CloseError int string | OtherError string

definition StatusNormalClosure :: int where
  "StatusNormalClosure = 1000"

definition StatusInternalError :: int where
  "StatusInternalError = 1011"

definition StatusSwitchingProtocols :: int where
  "StatusSwitchingProtocols = 101"

text \<open>\<^verbatim>\<open>time.Second\<close>, a duration in nanoseconds.\<close>

definition time_Second :: nat where
  "time_Second = 1000000000"

text \<open>
  Modelled from the spec: \<^verbatim>\<open>management.AsClosed\<close> is not part of the file; it is the
  explicit "is this a closure" extraction step on an error, giving the closure's code and
  reason or nothing.
\<close>

fun AsClosed :: "go_error \<Rightarrow> (int \<times> string) option" where
  "AsClosed (CloseError code reason) = Some (code, reason)"
| "AsClosed (OtherError _) = None"

subsection \<open>Formatting\<close>

text \<open>The verb \<^verbatim>\<open>%d\<close> of package fmt on an integer: decimal digits, with a minus sign.\<close>

definition digit_char :: "nat \<Rightarrow> char" where
  "digit_char n = ''0123456789'' ! (n mod 10)"

fun string_of_nat :: "nat \<Rightarrow> string" where
  "string_of_nat n =
     (if n < 10 then [digit_char n] else string_of_nat (n div 10) @ [digit_char n])"

declare string_of_nat.simps [simp del]

definition fmt_d :: "int \<Rightarrow> string" where
  "fmt_d i = (if i < 0 then ''-'' @ string_of_nat (nat (- i)) else string_of_nat (nat i))"

subsection \<open>Actions\<close>

text \<open>The severities of zerolog that the command uses.\<close>

datatype zerolog_Level = DebugLevel | InfoLevel | WarnLevel | ErrorLevel

text \<open>
  Modelled from the spec: the types of package \<^verbatim>\<open>management\<close> are declared outside
  the file. A level filter is one of debug, info, warn, error; an event-type filter is one
  of cloudflared, http, tcp, udp.
\<close>

datatype LogLevel = Debug | Info | Warn | Error

datatype LogEventType = Cloudflared | HTTP | TCP | UDP

record StreamingFilters =
  Level :: "LogLevel option"
  Events :: "LogEventType list"

text \<open>
  The start_streaming event handed to \<^verbatim>\<open>management.WriteEvent\<close>. \<open>Filters = None\<close>
  is the nil pointer: the event carries no filter field.
\<close>

record EventStartStreaming =
  ClientEvent_Type :: string
  Filters :: "StreamingFilters option"

definition StartStreaming :: string where
  "StartStreaming = ''start_streaming''"

record url_URL =
  Scheme :: string
  Host :: string
  Path :: string
  RawQuery :: string

text \<open>
  One entry per call that leaves the function. \<open>Log lvl err msg\<close> is an event handed to
  the logger at severity \<open>lvl\<close>, with the error attached by \<^verbatim>\<open>Err\<close> if any; whether the
  logger writes it depends on the threshold chosen by \<^verbatim>\<open>createLogger\<close>.
  \<open>Printf s\<close> is one formatted write to standard output. \<open>Receive ch t\<close> is the receive of
  the inner select of the wait loop: the channel it receives on, and the time in
  nanoseconds it has waited for it.
\<close>

datatype inner_case = InnerReaderDone | InnerTimeAfter

datatype action =
    Log zerolog_Level "go_error option" string
  | Printf string
  | SignalNotify
  | SignalStop
  | Dial url_URL "(string \<times> string list) list"
  | WriteEvent EventStartStreaming
  | ConnClose int string
  | TimeAfter nat
  | Receive inner_case nat

section \<open>Validation errors of the connection attempt\<close>

record managementError =
  Code :: int
  Message :: string

record managementErrorResponse =
  Success :: bool
  Errors :: "managementError list"

text \<open>
  The HTTP response of a failed dial, as far as the command reads it: the status code, and
  the body through \<^verbatim>\<open>json.NewDecoder(resp.Body).Decode(&managementErr)\<close>. \<open>Body\<close> is the
  outcome of that decoding: the error, or the decoded struct.
\<close>

record http_Response =
  StatusCode :: int
  Body :: "go_error + managementErrorResponse"

definition no_connector_msg :: string where
  "no_connector_msg = ''no cloudflared connector available or reachable via management request (a recent version of cloudflared is required to use streaming logs)''"

definition response_code_msg :: "int \<Rightarrow> string" where
  "response_code_msg code =
     ''unable to start management log streaming session: http response code returned '' @ fmt_d code"

definition returned_success_msg :: string where
  "returned_success_msg = ''management tunnel validation returned success with invalid HTTP response code to convert to a WebSocket request''"

definition failed_validation_msg :: "managementError \<Rightarrow> string" where
  "failed_validation_msg e =
     ''management request failed validation: ('' @ fmt_d (Code e) @ '') '' @ Message e"

definition handleValidationError :: "http_Response \<Rightarrow> action list" where
  "handleValidationError resp =
     (if StatusCode resp = 530 then [Log ErrorLevel None no_connector_msg] else []) @
     (case Body resp of
        Inl err \<Rightarrow> [Log ErrorLevel None (response_code_msg (StatusCode resp))]
      | Inr managementErr \<Rightarrow>
          if Success managementErr \<or> length (Errors managementErr) = 0
          then [Log ErrorLevel None returned_success_msg]
          else map (\<lambda>e. Log ErrorLevel None (failed_validation_msg e)) (Errors managementErr))"

section \<open>Filters\<close>

text \<open>
  Modelled from the spec: \<^verbatim>\<open>management.ParseLogLevel\<close> and
  \<^verbatim>\<open>management.ParseLogEventType\<close> are not part of the file. Each parses its argument
  against its enumeration, exact in case and spelling.
\<close>

definition ParseLogLevel :: "string \<Rightarrow> LogLevel option" where
  "ParseLogLevel l =
     (if l = ''debug'' then Some Debug
      else if l = ''info'' then Some Info
      else if l = ''warn'' then Some Warn
      else if l = ''error'' then Some Error
      else None)"

definition ParseLogEventType :: "string \<Rightarrow> LogEventType option" where
  "ParseLogEventType s =
     (if s = ''cloudflared'' then Some Cloudflared
      else if s = ''http'' then Some HTTP
      else if s = ''tcp'' then Some TCP
      else if s = ''udp'' then Some UDP
      else None)"

definition invalid_level_msg :: string where
  "invalid_level_msg = ''invalid --level filter provided, please use one of the following Log Levels: debug, info, warn, error''"

definition invalid_event_msg :: string where
  "invalid_event_msg = ''invalid --event filter provided, please use one of the following EventTypes: cloudflared, http, tcp, udp''"

text \<open>The loop over \<^verbatim>\<open>argEvents\<close>; \<open>events\<close> is the slice appended to so far.\<close>

fun parseEvents :: "string list \<Rightarrow> LogEventType list \<Rightarrow> go_error + LogEventType list" where
  "parseEvents [] events = Inr events"
| "parseEvents (v # vs) events =
     (case ParseLogEventType v of
        None \<Rightarrow> Inl (OtherError invalid_event_msg)
      | Some t \<Rightarrow> parseEvents vs (events @ [t]))"

text \<open>
  \<^verbatim>\<open>parseFilters\<close> on the values of the flags \<^verbatim>\<open>level\<close> and \<^verbatim>\<open>event\<close>. The result is
  the error, or the pointer to the filters, \<open>None\<close> being nil.
\<close>

definition parseFilters :: "string \<Rightarrow> string list \<Rightarrow> go_error + StreamingFilters option" where
  "parseFilters argLevel argEvents =
     (case (if argLevel \<noteq> ''''
            then (case ParseLogLevel argLevel of
                    None \<Rightarrow> Inl (OtherError invalid_level_msg)
                  | Some l \<Rightarrow> Inr (Some l))
            else Inr None) of
        Inl err \<Rightarrow> Inl err
      | Inr level \<Rightarrow>
          (case parseEvents argEvents [] of
             Inl err \<Rightarrow> Inl err
           | Inr events \<Rightarrow>
               if level = None \<and> length events = 0 then Inr None
               else Inr (Some \<lparr>Level = level, Events = events\<rparr>)))"

section \<open>The reader task\<close>

text \<open>
  Modelled from the spec: \<^verbatim>\<open>management.Log\<close>, \<^verbatim>\<open>management.EventLog\<close> and
  \<^verbatim>\<open>management.ServerEvent\<close> are declared outside the file. A log record has a time, a
  level, an event type and a message, each printed with \<^verbatim>\<open>%s\<close>, and a map of fields.
  The map is kept by what the reader does with it: \<open>Log_Fields\<close> is the outcome of
  \<^verbatim>\<open>json.Marshal(l.Fields)\<close>, and \<open>Log_GoString\<close> is the record printed with \<^verbatim>\<open>%+v\<close>.
  A server event has its type tag, and \<open>IntoLogs\<close> is the outcome of
  \<^verbatim>\<open>management.IntoServerEvent(event, management.Logs)\<close>, \<open>None\<close> when it is not ok.
\<close>

record Log =
  Log_Time :: string
  Log_Level :: string
  Log_Event :: string
  Log_Message :: string
  Log_Fields :: "go_error + string"
  Log_GoString :: string

record EventLog =
  Logs :: "Log list"

record ServerEvent =
  Type :: string
  IntoLogs :: "EventLog option"

definition management_Logs :: string where
  "management_Logs = ''logs''"

definition UnknownServerEventType :: string where
  "UnknownServerEventType = []"

text \<open>\<^verbatim>\<open>fmt.Printf("%s %s %s %s %s\n", l.Time, l.Level, l.Event, l.Message, fields)\<close>\<close>

definition log_line :: "Log \<Rightarrow> string \<Rightarrow> string" where
  "log_line l rendered =
     Log_Time l @ '' '' @ Log_Level l @ '' '' @ Log_Event l @ '' '' @ Log_Message l @ '' '' @
     rendered @ [CHR 0x0A]"

text \<open>The body of the loop over \<^verbatim>\<open>logs.Logs\<close>.\<close>

definition print_log :: "Log \<Rightarrow> action list" where
  "print_log l =
     (case Log_Fields l of
        Inl err \<Rightarrow>
          [Log DebugLevel None (''unable to parse fields from event '' @ Log_GoString l),
           Printf (log_line l ''unable to parse fields'')]
      | Inr rendered \<Rightarrow> [Printf (log_line l rendered)])"

text \<open>
  What one iteration of the reader's loop meets: the context is done, or
  \<^verbatim>\<open>management.ReadServerEvent\<close> returns an error or an event.
\<close>

datatype reader_input = CtxDone | ReadServerEvent "go_error + ServerEvent"

text \<open>
  One iteration of the loop: the actions, and whether the loop goes on (\<open>True\<close>) or the
  task returns (\<open>False\<close>).
\<close>

definition reader_iteration :: "reader_input \<Rightarrow> action list \<times> bool" where
  "reader_iteration i =
     (case i of
        CtxDone \<Rightarrow> ([], False)
      | ReadServerEvent (Inl err) \<Rightarrow>
          (case AsClosed err of
             Some (code, reason) \<Rightarrow>
               if code = StatusNormalClosure then ([], False)
               else ([Log ErrorLevel None
                        (''received remote closure: ('' @ fmt_d code @ '') '' @ reason)], False)
           | None \<Rightarrow> ([Log ErrorLevel (Some err) ''unable to read event from server''], False))
      | ReadServerEvent (Inr event) \<Rightarrow>
          if Type event = management_Logs then
            (case IntoLogs event of
               None \<Rightarrow> ([Log ErrorLevel None ''invalid logs event''], True)
             | Some logs \<Rightarrow> (concat (map print_log (Logs logs)), True))
          else if Type event = UnknownServerEventType then
            ([Log DebugLevel None (''unexpected log event type: '' @ Type event)], True)
          else
            ([Log DebugLevel None (''unexpected log event type: '' @ Type event)], True))"

text \<open>
  The task on the inputs it meets, in order. It has returned, and so closed
  \<^verbatim>\<open>readerDone\<close>, or it has used its inputs up and is blocked in the next read.
\<close>

datatype reader_status = ReaderReturned | ReaderBlocked

fun reader_loop :: "reader_input list \<Rightarrow> action list \<times> reader_status" where
  "reader_loop [] = ([], ReaderBlocked)"
| "reader_loop (i # is) =
     (case reader_iteration i of
        (acts, True) \<Rightarrow> (case reader_loop is of (acts', st) \<Rightarrow> (acts @ acts', st))
      | (acts, False) \<Rightarrow> (acts, ReaderReturned))"

section \<open>The command\<close>

text \<open>The flags that \<^verbatim>\<open>Run\<close> reads from the context, and the version of the package.\<close>

record cli_Context =
  flag_level :: string
  flag_event :: "string list"
  flag_management_hostname :: string
  flag_token :: string
  flag_trace :: string
  version :: string

text \<open>What \<^verbatim>\<open>websocket.Dial\<close> returns: an error with the response if there is one, or a connection.\<close>

datatype dial_result = DialError go_error "http_Response option" | DialConn

text \<open>
  An event outside the command that the wait loop can receive: the context is cancelled,
  or SIGTERM or SIGINT arrives.
\<close>

datatype outside_event = ContextCancelled | SignalReceived

text \<open>
  The surroundings of one run: what the dial and the write of the start_streaming event
  return, the inputs the reader meets before the select of the wait loop receives, the
  outside event that select receives if there is one, and the inputs the reader meets
  after that. Each of these comes with the time in nanoseconds its iteration takes,
  counted from the start of the inner select: an iteration that is over when the select
  begins, the call of \<^verbatim>\<open>Close\<close> having taken its time, counts 0.
\<close>

record world =
  env_Dial :: dial_result
  env_WriteEvent :: "go_error option"
  reader_before :: "reader_input list"
  outside :: "outside_event option"
  reader_during :: "(nat \<times> reader_input) list"

text \<open>\<open>Returned err\<close> is the value \<^verbatim>\<open>Run\<close> returns; \<open>Blocked\<close>: it waits and never returns.\<close>

datatype run_result = Returned "go_error option" | Blocked

text \<open>
  The inner select, \<^verbatim>\<open>select { case <-readerDone: case <-time.After(time.Second): }\<close>,
  with the reader still running: \<open>timeout\<close> is what is left on the timer. The reader goes
  through its iterations one after the other. An iteration that would end after the timer
  does not count: the select receives from the timer, having waited the whole timeout. An
  iteration on which the reader returns closes \<^verbatim>\<open>readerDone\<close>, and the select receives
  from it at that time (also when the timer fires at the same instant). The result is the
  actions of the reader in the meantime, the case that receives and the time waited.
\<close>

fun inner_select :: "nat \<Rightarrow> (nat \<times> reader_input) list \<Rightarrow> action list \<times> inner_case \<times> nat" where
  "inner_select timeout [] = ([], InnerTimeAfter, timeout)"
| "inner_select timeout ((d, i) # is) =
     (if timeout < d then ([], InnerTimeAfter, timeout)
      else (case reader_iteration i of
              (acts, False) \<Rightarrow> (acts, InnerReaderDone, d)
            | (acts, True) \<Rightarrow>
                (case inner_select (timeout - d) is of
                   (acts', fired, waited) \<Rightarrow> (acts @ acts', fired, d + waited))))"

text \<open>
  The wait loop, the reader being in status \<open>st\<close> when the select receives. Each case
  returns, so the body runs once. Without an outside event the select can receive from
  \<^verbatim>\<open>readerDone\<close> only. In the signal case the timer is armed with \<^verbatim>\<open>time.Second\<close>; a
  reader that has returned before lets the inner select receive at once. The actions of
  the reader, which runs beside the loop, are put between the arming of the timer and the
  receive.
\<close>

definition wait_loop ::
  "outside_event option \<Rightarrow> reader_status \<Rightarrow> (nat \<times> reader_input) list \<Rightarrow>
   action list \<times> run_result" where
  "wait_loop ev st during =
     (case ev of
        Some ContextCancelled \<Rightarrow> ([], Returned None)
      | None \<Rightarrow> if st = ReaderReturned then ([], Returned None) else ([], Blocked)
      | Some SignalReceived \<Rightarrow>
          (case (if st = ReaderReturned then ([], InnerReaderDone, 0)
                 else inner_select time_Second during) of
             (acts, fired, waited) \<Rightarrow>
               ([Log DebugLevel None ''closing management connection'',
                 ConnClose StatusNormalClosure [],
                 TimeAfter time_Second] @ acts @ [Receive fired waited],
                (case fired of
                   InnerReaderDone \<Rightarrow> Returned None
                 | InnerTimeAfter \<Rightarrow> Returned None))))"

definition dial_url :: "cli_Context \<Rightarrow> url_URL" where
  "dial_url c =
     \<lparr>Scheme = ''wss'', Host = flag_management_hostname c, Path = ''/logs'',
      RawQuery = ''access_token='' @ flag_token c\<rparr>"

definition dial_header :: "cli_Context \<Rightarrow> (string \<times> string list) list" where
  "dial_header c =
     [(''User-Agent'', [''cloudflared/'' @ version c])] @
     (if flag_trace c \<noteq> [] then [(''cf-trace-id'', [flag_trace c])] else [])"

text \<open>
  \<^verbatim>\<open>Run\<close>: the actions in order, and the result. The deferred calls run when the
  function returns, last deferred first.
\<close>

definition Run :: "cli_Context \<Rightarrow> world \<Rightarrow> action list \<times> run_result" where
  "Run c w =
     (case parseFilters (flag_level c) (flag_event c) of
        Inl err \<Rightarrow>
          ([SignalNotify, Log ErrorLevel (Some err) ''invalid filters provided'', SignalStop],
           Returned None)
      | Inr filters \<Rightarrow>
          (case env_Dial w of
             DialError err resp \<Rightarrow>
               (if resp \<noteq> None \<and> StatusCode (the resp) \<noteq> StatusSwitchingProtocols
                then ([SignalNotify, Dial (dial_url c) (dial_header c)] @
                      handleValidationError (the resp) @ [SignalStop], Returned None)
                else ([SignalNotify, Dial (dial_url c) (dial_header c),
                       Log ErrorLevel (Some err) ''unable to start management log streaming session'',
                       SignalStop], Returned None))
           | DialConn \<Rightarrow>
               (case env_WriteEvent w of
                  Some err \<Rightarrow>
                    ([SignalNotify, Dial (dial_url c) (dial_header c),
                      WriteEvent \<lparr>ClientEvent_Type = StartStreaming, Filters = filters\<rparr>,
                      Log ErrorLevel (Some err) ''unable to request logs from management tunnel'',
                      ConnClose StatusInternalError ''management connection was closed abruptly'',
                      SignalStop], Returned None)
                | None \<Rightarrow>
                    (case reader_loop (reader_before w) of
                       (racts, st) \<Rightarrow>
                         (case wait_loop (outside w) st (reader_during w) of
                            (wacts, Blocked) \<Rightarrow>
                              ([SignalNotify, Dial (dial_url c) (dial_header c),
                                WriteEvent \<lparr>ClientEvent_Type = StartStreaming, Filters = filters\<rparr>] @
                               racts @ wacts, Blocked)
                          | (wacts, Returned r) \<Rightarrow>
                              ([SignalNotify, Dial (dial_url c) (dial_header c),
                                WriteEvent \<lparr>ClientEvent_Type = StartStreaming, Filters = filters\<rparr>] @
                               racts @ wacts @
                               [ConnClose StatusInternalError ''management connection was closed abruptly'',
                                SignalStop], Returned r))))))"



text \<open>The start_streaming events handed to \<^verbatim>\<open>management.WriteEvent\<close>, in order.\<close>

fun written_events :: "action list \<Rightarrow> EventStartStreaming list" where
  "written_events [] = []"
| "written_events (WriteEvent e # acts) = e # written_events acts"
| "written_events (a # acts) = written_events acts"

text \<open>The two kinds of action the reader task has: a logger call and a write to standard output.\<close>

fun reader_output :: "action \<Rightarrow> bool" where
  "reader_output (Log lvl err msg) = True"
| "reader_output (Printf s) = True"
| "reader_output a = False"

text \<open>The messages of the logger calls at error severity, in order.\<close>

fun error_logs :: "action list \<Rightarrow> string list" where
  "error_logs [] = []"
| "error_logs (Log ErrorLevel err msg # acts) = msg # error_logs acts"
| "error_logs (a # acts) = error_logs acts"


text \<open>What the writes put on standard output, one after the other.\<close>

fun stdout_text :: "action list \<Rightarrow> string" where
  "stdout_text [] = []"
| "stdout_text (Printf s # acts) = s @ stdout_text acts"
| "stdout_text (a # acts) = stdout_text acts"

text \<open>
  The lines of a text: each line ends at a line feed, which is not part of it; what
  follows the last line feed is a line if it is not empty.
\<close>

fun text_lines :: "string \<Rightarrow> string list" where
  "text_lines [] = []"
| "text_lines (c # cs) =
     (if c = CHR 0x0A then [] # text_lines cs
      else (case text_lines cs of [] \<Rightarrow> [[c]] | l # ls \<Rightarrow> (c # l) # ls))"

section \<open>Properties\<close>

subsection \<open>The reader only logs and prints\<close>

lemma print_log_outputs: "a \<in> set (print_log l) \<Longrightarrow> reader_output a"
  by (auto simp: print_log_def split: sum.splits)

lemma reader_iteration_outputs: "a \<in> set (fst (reader_iteration i)) \<Longrightarrow> reader_output a"
  by (auto simp: reader_iteration_def split: reader_input.splits sum.splits option.splits if_splits
      dest: print_log_outputs)

lemma reader_loop_outputs: "a \<in> set (fst (reader_loop is)) \<Longrightarrow> reader_output a"
proof (induction "is" arbitrary: a)
  case Nil
  then show ?case by simp
next
  case (Cons i "is")
  obtain acts cont where it: "reader_iteration i = (acts, cont)" by (cases "reader_iteration i")
  obtain acts' st where lp: "reader_loop is = (acts', st)" by (cases "reader_loop is")
  from Cons.prems it lp have "a \<in> set acts \<or> a \<in> set acts'"
    by (cases cont) auto
  then show ?case
  proof
    assume "a \<in> set acts"
    with it reader_iteration_outputs[of a i] show ?thesis by simp
  next
    assume "a \<in> set acts'"
    with lp Cons.IH[of a] show ?thesis by simp
  qed
qed


lemma written_events_outputs:
  "\<forall>a\<in>set xs. reader_output a \<Longrightarrow> written_events xs = []"
proof (induction xs)
  case Nil
  then show ?case by simp
next
  case (Cons x xs)
  then show ?case by (cases x) simp_all
qed

lemma written_events_append: "written_events (xs @ ys) = written_events xs @ written_events ys"
proof (induction xs)
  case Nil
  then show ?case by simp
next
  case (Cons x xs)
  then show ?case by (cases x) simp_all
qed

lemma inner_select_outputs: "a \<in> set (fst (inner_select timeout ds)) \<Longrightarrow> reader_output a"
proof (induction timeout ds arbitrary: a rule: inner_select.induct)
  case (1 timeout)
  then show ?case by simp
next
  case (2 timeout d i "is")
  show ?case
  proof (cases "timeout < d")
    case True
    with "2.prems" show ?thesis by simp
  next
    case False
    obtain acts cont where it: "reader_iteration i = (acts, cont)"
      by (cases "reader_iteration i")
    obtain acts' fired waited where sel: "inner_select (timeout - d) is = (acts', fired, waited)"
      by (cases "inner_select (timeout - d) is")
    from "2.prems" False it sel have "a \<in> set acts \<or> (cont \<and> a \<in> set acts')"
      by (cases cont) auto
    then show ?thesis
    proof
      assume "a \<in> set acts"
      with it reader_iteration_outputs[of a i] show ?thesis by simp
    next
      assume c: "cont \<and> a \<in> set acts'"
      with False it sel "2.IH"[OF False it[symmetric], of a] show ?thesis by simp
    qed
  qed
qed

lemma wait_loop_written_events: "written_events (fst (wait_loop ev st during)) = []"
proof -
  obtain acts fired waited where sel: "inner_select time_Second during = (acts, fired, waited)"
    by (cases "inner_select time_Second during")
  have "\<forall>a\<in>set acts. reader_output a"
    using sel inner_select_outputs[of _ time_Second during] by auto
  then have r: "written_events acts = []"
    by (rule written_events_outputs)
  show ?thesis
    using r sel
    by (auto simp: wait_loop_def written_events_append
        split: option.splits outside_event.splits prod.splits)
qed


lemma text_lines_line:
  "CHR 0x0A \<notin> set s \<Longrightarrow> text_lines (s @ CHR 0x0A # rest) = s # text_lines rest"
  by (induction s) auto

subsection \<open>The filter builder\<close>

text \<open>
  C6: with an empty level string and no event in the list, \<^verbatim>\<open>parseFilters\<close> returns the nil
  pointer and no error, and not a filter object with empty members. With these flags a run
  that gets a connection hands \<^verbatim>\<open>WriteEvent\<close> exactly one start_streaming event, and
  that event carries no filter field.
\<close>

theorem C6_no_filter:
  "parseFilters [] [] = Inr None \<and>
   (flag_level c = [] \<and> flag_event c = [] \<and> env_Dial w = DialConn \<longrightarrow>
      written_events (fst (Run c w)) = [\<lparr>ClientEvent_Type = StartStreaming, Filters = None\<rparr>])"
proof
  show pf: "parseFilters [] [] = Inr None"
    by (simp add: parseFilters_def)
  show "flag_level c = [] \<and> flag_event c = [] \<and> env_Dial w = DialConn \<longrightarrow>
      written_events (fst (Run c w)) = [\<lparr>ClientEvent_Type = StartStreaming, Filters = None\<rparr>]"
  proof
    assume h: "flag_level c = [] \<and> flag_event c = [] \<and> env_Dial w = DialConn"
    have r: "written_events (fst (reader_loop (reader_before w))) = []"
      by (rule written_events_outputs) (auto dest: reader_loop_outputs)
    have wl: "\<And>st. written_events (fst (wait_loop (outside w) st (reader_during w))) = []"
      by (rule wait_loop_written_events)
    show "written_events (fst (Run c w)) = [\<lparr>ClientEvent_Type = StartStreaming, Filters = None\<rparr>]"
    proof (cases "env_WriteEvent w")
      case (Some err)
      with h pf show ?thesis by (simp add: Run_def)
    next
      case None
      obtain racts st where rl: "reader_loop (reader_before w) = (racts, st)"
        by (cases "reader_loop (reader_before w)")
      obtain wacts res where wq: "wait_loop (outside w) st (reader_during w) = (wacts, res)"
        by (cases "wait_loop (outside w) st (reader_during w)")
      from r rl have r': "written_events racts = []" by simp
      from wl[of st] wq have w': "written_events wacts = []" by simp
      from h pf None rl wq r' w' show ?thesis
        by (cases res) (simp_all add: Run_def written_events_append)
    qed
  qed
qed

theorem C6_no_filter_witness:
  "written_events (fst (Run
     \<lparr>flag_level = [], flag_event = [], flag_management_hostname = ''management.argotunnel.com'',
      flag_token = ''tok'', flag_trace = [], version = ''2023.4.0''\<rparr>
     \<lparr>env_Dial = DialConn, env_WriteEvent = None, reader_before = [],
      outside = Some ContextCancelled, reader_during = []\<rparr>)) =
   [\<lparr>ClientEvent_Type = StartStreaming, Filters = None\<rparr>]"
  using C6_no_filter[of
     "\<lparr>flag_level = [], flag_event = [], flag_management_hostname = ''management.argotunnel.com'',
      flag_token = ''tok'', flag_trace = [], version = ''2023.4.0''\<rparr>"
     "\<lparr>env_Dial = DialConn, env_WriteEvent = None, reader_before = [],
      outside = Some ContextCancelled, reader_during = []\<rparr>"]
  by simp

lemma ParseLogEventType_valid:
  "ParseLogEventType v \<noteq> None \<longleftrightarrow> v \<in> {''cloudflared'', ''http'', ''tcp'', ''udp''}"
  by (simp add: ParseLogEventType_def)

lemma ParseLogLevel_valid:
  "ParseLogLevel l \<noteq> None \<longleftrightarrow> l \<in> {''debug'', ''info'', ''warn'', ''error''}"
  by (simp add: ParseLogLevel_def)

lemma parseEvents_valid:
  "set vs \<subseteq> {''cloudflared'', ''http'', ''tcp'', ''udp''} \<Longrightarrow>
   parseEvents vs acc = Inr (acc @ map (\<lambda>v. the (ParseLogEventType v)) vs)"
proof (induction vs arbitrary: acc)
  case Nil
  then show ?case by simp
next
  case (Cons v vs)
  from Cons.prems have "v \<in> {''cloudflared'', ''http'', ''tcp'', ''udp''}" by simp
  then obtain t where t: "ParseLogEventType v = Some t"
    using ParseLogEventType_valid[of v] by auto
  from Cons.prems have "set vs \<subseteq> {''cloudflared'', ''http'', ''tcp'', ''udp''}" by simp
  from Cons.IH[OF this, of "acc @ [t]"] t show ?case by simp
qed

lemma parseEvents_invalid:
  "\<not> set vs \<subseteq> {''cloudflared'', ''http'', ''tcp'', ''udp''} \<Longrightarrow>
   parseEvents vs acc = Inl (OtherError invalid_event_msg)"
proof (induction vs arbitrary: acc)
  case Nil
  then show ?case by simp
next
  case (Cons v vs)
  show ?case
  proof (cases "ParseLogEventType v")
    case None
    then show ?thesis by simp
  next
    case (Some t)
    then have "v \<in> {''cloudflared'', ''http'', ''tcp'', ''udp''}"
      using ParseLogEventType_valid[of v] by simp
    with Cons.prems have "\<not> set vs \<subseteq> {''cloudflared'', ''http'', ''tcp'', ''udp''}" by auto
    from Cons.IH[OF this, of "acc @ [t]"] Some show ?thesis by simp
  qed
qed

text \<open>
  C7: the level strings debug, info, warn, error parse to their levels and the event
  strings cloudflared, http, tcp, udp to their event types. With a level among the four
  and a list of events all among the four, \<^verbatim>\<open>parseFilters\<close> returns the filters with
  that level and those events in order; with an empty level and a non-empty list of such
  events it returns the filters with no level and those events. Any other non-empty level
  string fails with the message that lists the four levels. A list of events all among
  the four passes the loop; a list with a token outside them fails in the loop with the
  message that lists the four event types, and so does \<^verbatim>\<open>parseFilters\<close> when the level
  has passed (it is empty or valid).
\<close>

theorem C7_filter_parsing:
  "(ParseLogLevel ''debug'' = Some Debug \<and> ParseLogLevel ''info'' = Some Info \<and>
    ParseLogLevel ''warn'' = Some Warn \<and> ParseLogLevel ''error'' = Some Error) \<and>
   (ParseLogEventType ''cloudflared'' = Some Cloudflared \<and> ParseLogEventType ''http'' = Some HTTP \<and>
    ParseLogEventType ''tcp'' = Some TCP \<and> ParseLogEventType ''udp'' = Some UDP) \<and>
   (lvl \<in> {''debug'', ''info'', ''warn'', ''error''} \<and>
    set evs \<subseteq> {''cloudflared'', ''http'', ''tcp'', ''udp''} \<longrightarrow>
      ParseLogLevel lvl \<noteq> None \<and>
      parseFilters lvl evs =
        Inr (Some \<lparr>Level = ParseLogLevel lvl,
                   Events = map (\<lambda>v. the (ParseLogEventType v)) evs\<rparr>)) \<and>
   (evs \<noteq> [] \<and> set evs \<subseteq> {''cloudflared'', ''http'', ''tcp'', ''udp''} \<longrightarrow>
      parseFilters [] evs =
        Inr (Some \<lparr>Level = None, Events = map (\<lambda>v. the (ParseLogEventType v)) evs\<rparr>)) \<and>
   (lvl \<noteq> [] \<and> lvl \<notin> {''debug'', ''info'', ''warn'', ''error''} \<longrightarrow>
      parseFilters lvl evs = Inl (OtherError
        ''invalid --level filter provided, please use one of the following Log Levels: debug, info, warn, error'')) \<and>
   (set evs \<subseteq> {''cloudflared'', ''http'', ''tcp'', ''udp''} \<longrightarrow>
      parseEvents evs [] = Inr (map (\<lambda>v. the (ParseLogEventType v)) evs) \<and>
      (\<forall>v \<in> set evs. ParseLogEventType v \<noteq> None)) \<and>
   (\<not> set evs \<subseteq> {''cloudflared'', ''http'', ''tcp'', ''udp''} \<longrightarrow>
      parseEvents evs [] = Inl (OtherError
        ''invalid --event filter provided, please use one of the following EventTypes: cloudflared, http, tcp, udp'') \<and>
      (lvl = [] \<or> lvl \<in> {''debug'', ''info'', ''warn'', ''error''} \<longrightarrow>
         parseFilters lvl evs = Inl (OtherError
           ''invalid --event filter provided, please use one of the following EventTypes: cloudflared, http, tcp, udp'')))"
proof -
  have tl: "ParseLogLevel ''debug'' = Some Debug \<and> ParseLogLevel ''info'' = Some Info \<and>
    ParseLogLevel ''warn'' = Some Warn \<and> ParseLogLevel ''error'' = Some Error"
    by (simp add: ParseLogLevel_def)
  have te: "ParseLogEventType ''cloudflared'' = Some Cloudflared \<and>
    ParseLogEventType ''http'' = Some HTTP \<and>
    ParseLogEventType ''tcp'' = Some TCP \<and> ParseLogEventType ''udp'' = Some UDP"
    by (simp add: ParseLogEventType_def)
  have both: "ParseLogLevel lvl \<noteq> None \<and>
      parseFilters lvl evs =
        Inr (Some \<lparr>Level = ParseLogLevel lvl,
                   Events = map (\<lambda>v. the (ParseLogEventType v)) evs\<rparr>)"
    if h: "lvl \<in> {''debug'', ''info'', ''warn'', ''error''} \<and>
      set evs \<subseteq> {''cloudflared'', ''http'', ''tcp'', ''udp''}"
  proof -
    from h obtain l where l: "ParseLogLevel lvl = Some l"
      using ParseLogLevel_valid[of lvl] by auto
    from h have ne: "lvl \<noteq> []" by auto
    from h have "parseEvents evs [] = Inr ([] @ map (\<lambda>v. the (ParseLogEventType v)) evs)"
      by (intro parseEvents_valid) simp
    with l ne show ?thesis by (simp add: parseFilters_def)
  qed
  have only_events: "parseFilters [] evs =
        Inr (Some \<lparr>Level = None, Events = map (\<lambda>v. the (ParseLogEventType v)) evs\<rparr>)"
    if h: "evs \<noteq> [] \<and> set evs \<subseteq> {''cloudflared'', ''http'', ''tcp'', ''udp''}"
  proof -
    from h have "parseEvents evs [] = Inr ([] @ map (\<lambda>v. the (ParseLogEventType v)) evs)"
      by (intro parseEvents_valid) simp
    with h show ?thesis by (simp add: parseFilters_def)
  qed
  have bad_level: "parseFilters lvl evs = Inl (OtherError
        ''invalid --level filter provided, please use one of the following Log Levels: debug, info, warn, error'')"
    if h: "lvl \<noteq> [] \<and> lvl \<notin> {''debug'', ''info'', ''warn'', ''error''}"
  proof -
    from h have "ParseLogLevel lvl = None"
      using ParseLogLevel_valid[of lvl] by simp
    with h show ?thesis by (simp add: parseFilters_def invalid_level_msg_def)
  qed
  have loop_ok: "parseEvents evs [] = Inr (map (\<lambda>v. the (ParseLogEventType v)) evs) \<and>
      (\<forall>v \<in> set evs. ParseLogEventType v \<noteq> None)"
    if h: "set evs \<subseteq> {''cloudflared'', ''http'', ''tcp'', ''udp''}"
  proof
    from parseEvents_valid[OF h, of "[]"]
    show "parseEvents evs [] = Inr (map (\<lambda>v. the (ParseLogEventType v)) evs)" by simp
    show "\<forall>v \<in> set evs. ParseLogEventType v \<noteq> None"
    proof
      fix v assume "v \<in> set evs"
      with h have "v \<in> {''cloudflared'', ''http'', ''tcp'', ''udp''}" by blast
      then show "ParseLogEventType v \<noteq> None" using ParseLogEventType_valid[of v] by simp
    qed
  qed
  have bad_event: "parseEvents evs [] = Inl (OtherError
        ''invalid --event filter provided, please use one of the following EventTypes: cloudflared, http, tcp, udp'') \<and>
      (lvl = [] \<or> lvl \<in> {''debug'', ''info'', ''warn'', ''error''} \<longrightarrow>
         parseFilters lvl evs = Inl (OtherError
           ''invalid --event filter provided, please use one of the following EventTypes: cloudflared, http, tcp, udp''))"
    if h: "\<not> set evs \<subseteq> {''cloudflared'', ''http'', ''tcp'', ''udp''}"
  proof (intro conjI impI)
    have pe: "parseEvents evs [] = Inl (OtherError invalid_event_msg)"
      by (rule parseEvents_invalid[OF h])
    then show "parseEvents evs [] = Inl (OtherError
        ''invalid --event filter provided, please use one of the following EventTypes: cloudflared, http, tcp, udp'')"
      by (simp add: invalid_event_msg_def)
    assume lv: "lvl = [] \<or> lvl \<in> {''debug'', ''info'', ''warn'', ''error''}"
    then show "parseFilters lvl evs = Inl (OtherError
           ''invalid --event filter provided, please use one of the following EventTypes: cloudflared, http, tcp, udp'')"
    proof
      assume "lvl = []"
      with pe show ?thesis by (simp add: parseFilters_def invalid_event_msg_def)
    next
      assume "lvl \<in> {''debug'', ''info'', ''warn'', ''error''}"
      then obtain l where "ParseLogLevel lvl = Some l"
        using ParseLogLevel_valid[of lvl] by auto
      with pe show ?thesis by (simp add: parseFilters_def invalid_event_msg_def)
    qed
  qed
  from tl te both only_events bad_level loop_ok bad_event show ?thesis
    by blast
qed

theorem C7_filter_parsing_witness:
  "parseFilters ''warn'' [''http'', ''tcp''] = Inr (Some \<lparr>Level = Some Warn, Events = [HTTP, TCP]\<rparr>) \<and>
   parseFilters [] [''http'', ''udp''] = Inr (Some \<lparr>Level = None, Events = [HTTP, UDP]\<rparr>) \<and>
   parseFilters ''Warn'' [''http'', ''tcp''] = Inl (OtherError
     ''invalid --level filter provided, please use one of the following Log Levels: debug, info, warn, error'') \<and>
   parseFilters ''warn'' [''http'', ''icmp''] = Inl (OtherError
     ''invalid --event filter provided, please use one of the following EventTypes: cloudflared, http, tcp, udp'')"
  using C7_filter_parsing[of "''warn''" "[''http'', ''tcp'']"]
    C7_filter_parsing[of "[]" "[''http'', ''udp'']"]
    C7_filter_parsing[of "''Warn''" "[''http'', ''tcp'']"]
    C7_filter_parsing[of "''warn''" "[''http'', ''icmp'']"]
  by simp

subsection \<open>The reader task\<close>



text \<open>
  C10: when an event tagged as logs does not convert into a logs event, the reader logs
  "invalid logs event" at error severity and goes on with the next input; the task does
  not return on it.
\<close>

theorem C10_invalid_logs_event:
  "Type ev = management_Logs \<and> IntoLogs ev = None \<longrightarrow>
     reader_iteration (ReadServerEvent (Inr ev)) = ([Log ErrorLevel None ''invalid logs event''], True) \<and>
     reader_loop (ReadServerEvent (Inr ev) # rest) =
       (Log ErrorLevel None ''invalid logs event'' # fst (reader_loop rest), snd (reader_loop rest))"
  by (simp add: reader_iteration_def split: prod.splits)

theorem C10_invalid_logs_event_witness:
  "reader_loop [ReadServerEvent (Inr \<lparr>Type = ''logs'', IntoLogs = None\<rparr>),
                ReadServerEvent (Inl (CloseError 1000 []))] =
     ([Log ErrorLevel None ''invalid logs event''], ReaderReturned)"
  using C10_invalid_logs_event[of "\<lparr>Type = ''logs'', IntoLogs = None\<rparr>"
      "[ReadServerEvent (Inl (CloseError 1000 []))]"]
  by (simp add: management_Logs_def reader_iteration_def StatusNormalClosure_def)

lemma print_logs_serialized:
  "\<forall>l \<in> set ls. \<exists>s. Log_Fields l = Inr s \<Longrightarrow>
   concat (map print_log ls) = map (\<lambda>l. Printf (log_line l (projr (Log_Fields l)))) ls"
  by (induction ls) (auto simp: print_log_def)

lemma stdout_lines:
  "\<forall>l \<in> set ls. CHR 0x0A \<notin> set (g l) \<Longrightarrow>
   text_lines (stdout_text (map (\<lambda>l. Printf (g l @ [CHR 0x0A])) ls)) = map g ls"
proof (induction ls)
  case Nil
  then show ?case by simp
next
  case (Cons l ls)
  from Cons.prems have "CHR 0x0A \<notin> set (g l)" by simp
  from text_lines_line[OF this, of "stdout_text (map (\<lambda>l. Printf (g l @ [CHR 0x0A])) ls)"]
    Cons show ?case by simp
qed

text \<open>
  C8, as the code has it: for an event tagged as logs that converts into a logs event
  with n records whose field maps serialize, the reader makes exactly n writes to
  standard output and nothing else, one per record and in the order of the records, each
  write being the record's time, level, event type, message and serialized fields in that
  order, separated by single spaces and ended by a line feed; the loop then goes on. When
  no time, level, event type, message or serialized fields of a record holds a line feed,
  the output is exactly n lines, the five-field line of each record in order.
\<close>

theorem C8_line_per_record:
  "Type ev = management_Logs \<and> IntoLogs ev = Some logs \<and>
   (\<forall>l \<in> set (Logs logs). \<exists>s. Log_Fields l = Inr s) \<longrightarrow>
     reader_iteration (ReadServerEvent (Inr ev)) =
       (map (\<lambda>l. Printf (Log_Time l @ '' '' @ Log_Level l @ '' '' @ Log_Event l @ '' '' @
                          Log_Message l @ '' '' @ projr (Log_Fields l) @ [CHR 0x0A]))
            (Logs logs), True) \<and>
     length (fst (reader_iteration (ReadServerEvent (Inr ev)))) = length (Logs logs) \<and>
     ((\<forall>l \<in> set (Logs logs).
         CHR 0x0A \<notin> set (Log_Time l) \<and> CHR 0x0A \<notin> set (Log_Level l) \<and>
         CHR 0x0A \<notin> set (Log_Event l) \<and> CHR 0x0A \<notin> set (Log_Message l) \<and>
         CHR 0x0A \<notin> set (projr (Log_Fields l))) \<longrightarrow>
        text_lines (stdout_text (fst (reader_iteration (ReadServerEvent (Inr ev))))) =
          map (\<lambda>l. Log_Time l @ '' '' @ Log_Level l @ '' '' @ Log_Event l @ '' '' @
                    Log_Message l @ '' '' @ projr (Log_Fields l))
              (Logs logs))"
proof
  assume h: "Type ev = management_Logs \<and> IntoLogs ev = Some logs \<and>
   (\<forall>l \<in> set (Logs logs). \<exists>s. Log_Fields l = Inr s)"
  then have "concat (map print_log (Logs logs)) =
      map (\<lambda>l. Printf (log_line l (projr (Log_Fields l)))) (Logs logs)"
    by (intro print_logs_serialized) simp
  with h have eq: "reader_iteration (ReadServerEvent (Inr ev)) =
       (map (\<lambda>l. Printf (Log_Time l @ '' '' @ Log_Level l @ '' '' @ Log_Event l @ '' '' @
                          Log_Message l @ '' '' @ projr (Log_Fields l) @ [CHR 0x0A]))
            (Logs logs), True)"
    by (simp add: reader_iteration_def log_line_def)
  have ln: "text_lines (stdout_text (fst (reader_iteration (ReadServerEvent (Inr ev))))) =
          map (\<lambda>l. Log_Time l @ '' '' @ Log_Level l @ '' '' @ Log_Event l @ '' '' @
                    Log_Message l @ '' '' @ projr (Log_Fields l))
              (Logs logs)"
    if nl: "\<forall>l \<in> set (Logs logs).
         CHR 0x0A \<notin> set (Log_Time l) \<and> CHR 0x0A \<notin> set (Log_Level l) \<and>
         CHR 0x0A \<notin> set (Log_Event l) \<and> CHR 0x0A \<notin> set (Log_Message l) \<and>
         CHR 0x0A \<notin> set (projr (Log_Fields l))"
  proof -
    from nl have "\<forall>l \<in> set (Logs logs). CHR 0x0A \<notin> set
        (Log_Time l @ '' '' @ Log_Level l @ '' '' @ Log_Event l @ '' '' @
         Log_Message l @ '' '' @ projr (Log_Fields l))"
      by simp
    from stdout_lines[of "Logs logs"
        "\<lambda>l. Log_Time l @ '' '' @ Log_Level l @ '' '' @ Log_Event l @ '' '' @
              Log_Message l @ '' '' @ projr (Log_Fields l)", OF this] eq
    show ?thesis by simp
  qed
  from eq ln show "reader_iteration (ReadServerEvent (Inr ev)) =
       (map (\<lambda>l. Printf (Log_Time l @ '' '' @ Log_Level l @ '' '' @ Log_Event l @ '' '' @
                          Log_Message l @ '' '' @ projr (Log_Fields l) @ [CHR 0x0A]))
            (Logs logs), True) \<and>
     length (fst (reader_iteration (ReadServerEvent (Inr ev)))) = length (Logs logs) \<and>
     ((\<forall>l \<in> set (Logs logs).
         CHR 0x0A \<notin> set (Log_Time l) \<and> CHR 0x0A \<notin> set (Log_Level l) \<and>
         CHR 0x0A \<notin> set (Log_Event l) \<and> CHR 0x0A \<notin> set (Log_Message l) \<and>
         CHR 0x0A \<notin> set (projr (Log_Fields l))) \<longrightarrow>
        text_lines (stdout_text (fst (reader_iteration (ReadServerEvent (Inr ev))))) =
          map (\<lambda>l. Log_Time l @ '' '' @ Log_Level l @ '' '' @ Log_Event l @ '' '' @
                    Log_Message l @ '' '' @ projr (Log_Fields l))
              (Logs logs))"
    by simp
qed

theorem C8_line_per_record_witness:
  "text_lines (stdout_text (fst (reader_iteration (ReadServerEvent (Inr
     \<lparr>Type = ''logs'', IntoLogs = Some \<lparr>Logs =
        [\<lparr>Log_Time = ''2023-04-01T10:00:00Z'', Log_Level = ''info'', Log_Event = ''http'',
          Log_Message = ''GET /'', Log_Fields = Inr ''{}'', Log_GoString = []\<rparr>,
         \<lparr>Log_Time = ''2023-04-01T10:00:01Z'', Log_Level = ''warn'', Log_Event = ''tcp'',
          Log_Message = ''reset'', Log_Fields = Inr ''{}'', Log_GoString = []\<rparr>]\<rparr>\<rparr>))))) =
   [''2023-04-01T10:00:00Z info http GET / {}'', ''2023-04-01T10:00:01Z warn tcp reset {}''] \<and>
   reader_iteration (ReadServerEvent (Inr
     \<lparr>Type = ''logs'', IntoLogs = Some \<lparr>Logs =
        [\<lparr>Log_Time = ''2023-04-01T10:00:00Z'', Log_Level = ''info'', Log_Event = ''http'',
          Log_Message = ''GET /'', Log_Fields = Inr ''{}'', Log_GoString = []\<rparr>,
         \<lparr>Log_Time = ''2023-04-01T10:00:01Z'', Log_Level = ''warn'', Log_Event = ''tcp'',
          Log_Message = ''reset'', Log_Fields = Inr ''{}'', Log_GoString = []\<rparr>]\<rparr>\<rparr>)) =
   ([Printf (''2023-04-01T10:00:00Z info http GET / {}'' @ [CHR 0x0A]),
     Printf (''2023-04-01T10:00:01Z warn tcp reset {}'' @ [CHR 0x0A])], True)"
  using C8_line_per_record[of
     "\<lparr>Type = ''logs'', IntoLogs = Some \<lparr>Logs =
        [\<lparr>Log_Time = ''2023-04-01T10:00:00Z'', Log_Level = ''info'', Log_Event = ''http'',
          Log_Message = ''GET /'', Log_Fields = Inr ''{}'', Log_GoString = []\<rparr>,
         \<lparr>Log_Time = ''2023-04-01T10:00:01Z'', Log_Level = ''warn'', Log_Event = ''tcp'',
          Log_Message = ''reset'', Log_Fields = Inr ''{}'', Log_GoString = []\<rparr>]\<rparr>\<rparr>"
     "\<lparr>Logs =
        [\<lparr>Log_Time = ''2023-04-01T10:00:00Z'', Log_Level = ''info'', Log_Event = ''http'',
          Log_Message = ''GET /'', Log_Fields = Inr ''{}'', Log_GoString = []\<rparr>,
         \<lparr>Log_Time = ''2023-04-01T10:00:01Z'', Log_Level = ''warn'', Log_Event = ''tcp'',
          Log_Message = ''reset'', Log_Fields = Inr ''{}'', Log_GoString = []\<rparr>]\<rparr>"]
  by (simp add: management_Logs_def)

text \<open>
  C8 as stated fails: a logs event with one record whose message holds a line feed, its
  fields serializing, puts two lines on standard output, and neither has the five fields.
\<close>

theorem C8_counterexample:
  "text_lines (stdout_text (fst (reader_iteration (ReadServerEvent (Inr
     \<lparr>Type = ''logs'', IntoLogs = Some \<lparr>Logs =
        [\<lparr>Log_Time = ''2023-04-01T10:00:00Z'', Log_Level = ''error'', Log_Event = ''cloudflared'',
          Log_Message = ''dial failed'' @ [CHR 0x0A] @ ''retrying'',
          Log_Fields = Inr ''{}'', Log_GoString = []\<rparr>]\<rparr>\<rparr>))))) =
     [''2023-04-01T10:00:00Z error cloudflared dial failed'', ''retrying {}''] \<and>
   length (text_lines (stdout_text (fst (reader_iteration (ReadServerEvent (Inr
     \<lparr>Type = ''logs'', IntoLogs = Some \<lparr>Logs =
        [\<lparr>Log_Time = ''2023-04-01T10:00:00Z'', Log_Level = ''error'', Log_Event = ''cloudflared'',
          Log_Message = ''dial failed'' @ [CHR 0x0A] @ ''retrying'',
          Log_Fields = Inr ''{}'', Log_GoString = []\<rparr>]\<rparr>\<rparr>)))))) \<noteq> 1"
  by (simp add: reader_iteration_def management_Logs_def print_log_def log_line_def)

text \<open>
  C9: for a record whose field map does not serialize, the reader hands the logger one
  debug-level event and still writes the record's line, with the text
  "unable to parse fields" in the place of the fields; it then prints the remaining
  records of the event and goes on with the next input.
\<close>

theorem C9_unserializable_fields:
  "Log_Fields l = Inl e \<longrightarrow>
     print_log l =
       [Log DebugLevel None (''unable to parse fields from event '' @ Log_GoString l),
        Printf (Log_Time l @ '' '' @ Log_Level l @ '' '' @ Log_Event l @ '' '' @
                Log_Message l @ '' '' @ ''unable to parse fields'' @ [CHR 0x0A])] \<and>
     (Type ev = management_Logs \<and> IntoLogs ev = Some logs \<and> Logs logs = ls1 @ l # ls2 \<longrightarrow>
        reader_loop (ReadServerEvent (Inr ev) # rest) =
          (concat (map print_log ls1) @ print_log l @ concat (map print_log ls2) @
           fst (reader_loop rest), snd (reader_loop rest)))"
  by (simp add: print_log_def log_line_def reader_iteration_def split: prod.splits)

theorem C9_unserializable_fields_witness:
  "reader_loop [ReadServerEvent (Inr
     \<lparr>Type = ''logs'', IntoLogs = Some \<lparr>Logs =
        [\<lparr>Log_Time = ''t1'', Log_Level = ''info'', Log_Event = ''http'',
          Log_Message = ''m1'', Log_Fields = Inl (OtherError ''json: unsupported value: NaN''),
          Log_GoString = ''{t1}''\<rparr>,
         \<lparr>Log_Time = ''t2'', Log_Level = ''warn'', Log_Event = ''tcp'',
          Log_Message = ''m2'', Log_Fields = Inr ''{}'', Log_GoString = ''{t2}''\<rparr>]\<rparr>\<rparr>),
     ReadServerEvent (Inr \<lparr>Type = ''logs'', IntoLogs = Some \<lparr>Logs =
        [\<lparr>Log_Time = ''t3'', Log_Level = ''error'', Log_Event = ''udp'',
          Log_Message = ''m3'', Log_Fields = Inr ''{}'', Log_GoString = ''{t3}''\<rparr>]\<rparr>\<rparr>)] =
   ([Log DebugLevel None ''unable to parse fields from event {t1}'',
     Printf (''t1 info http m1 unable to parse fields'' @ [CHR 0x0A]),
     Printf (''t2 warn tcp m2 {}'' @ [CHR 0x0A]),
     Printf (''t3 error udp m3 {}'' @ [CHR 0x0A])], ReaderBlocked)"
  using C9_unserializable_fields[of
     "\<lparr>Log_Time = ''t1'', Log_Level = ''info'', Log_Event = ''http'',
          Log_Message = ''m1'', Log_Fields = Inl (OtherError ''json: unsupported value: NaN''),
          Log_GoString = ''{t1}''\<rparr>"
     "OtherError ''json: unsupported value: NaN''"
     "\<lparr>Type = ''logs'', IntoLogs = Some \<lparr>Logs =
        [\<lparr>Log_Time = ''t1'', Log_Level = ''info'', Log_Event = ''http'',
          Log_Message = ''m1'', Log_Fields = Inl (OtherError ''json: unsupported value: NaN''),
          Log_GoString = ''{t1}''\<rparr>,
         \<lparr>Log_Time = ''t2'', Log_Level = ''warn'', Log_Event = ''tcp'',
          Log_Message = ''m2'', Log_Fields = Inr ''{}'', Log_GoString = ''{t2}''\<rparr>]\<rparr>\<rparr>"
     "\<lparr>Logs =
        [\<lparr>Log_Time = ''t1'', Log_Level = ''info'', Log_Event = ''http'',
          Log_Message = ''m1'', Log_Fields = Inl (OtherError ''json: unsupported value: NaN''),
          Log_GoString = ''{t1}''\<rparr>,
         \<lparr>Log_Time = ''t2'', Log_Level = ''warn'', Log_Event = ''tcp'',
          Log_Message = ''m2'', Log_Fields = Inr ''{}'', Log_GoString = ''{t2}''\<rparr>]\<rparr>"
     "[]"
     "[\<lparr>Log_Time = ''t2'', Log_Level = ''warn'', Log_Event = ''tcp'',
          Log_Message = ''m2'', Log_Fields = Inr ''{}'', Log_GoString = ''{t2}''\<rparr>]"
     "[ReadServerEvent (Inr \<lparr>Type = ''logs'', IntoLogs = Some \<lparr>Logs =
        [\<lparr>Log_Time = ''t3'', Log_Level = ''error'', Log_Event = ''udp'',
          Log_Message = ''m3'', Log_Fields = Inr ''{}'', Log_GoString = ''{t3}''\<rparr>]\<rparr>\<rparr>)]"]
  by (simp add: management_Logs_def print_log_def log_line_def reader_iteration_def)

subsection \<open>The connection attempt\<close>

lemma no_connector_neq:
  "no_connector_msg \<noteq> response_code_msg code"
  "no_connector_msg \<noteq> returned_success_msg"
  "no_connector_msg \<noteq> failed_validation_msg e"
  by (simp_all add: no_connector_msg_def response_code_msg_def returned_success_msg_def
      failed_validation_msg_def)

lemma error_logs_map:
  "error_logs (map (\<lambda>e. Log ErrorLevel None (g e)) es @ rest) = map g es @ error_logs rest"
  by (induction es) simp_all




text \<open>
  C1, as the code has it: when the dial fails with a response of status 530, the run logs
  the no-connector message first and exactly once, then goes on to decode the body and
  logs what the body gives (the message with the status code, the returned-success
  message, or one message per error), so at least one more message follows; it then
  returns nil after a single dial.
\<close>

theorem C1_no_connector_then_body:
  "parseFilters (flag_level c) (flag_event c) = Inr f \<and>
   env_Dial w = DialError err (Some resp) \<and> StatusCode resp = 530 \<longrightarrow>
     Run c w =
       ([SignalNotify, Dial (dial_url c) (dial_header c), Log ErrorLevel None no_connector_msg] @
        (case Body resp of
           Inl e \<Rightarrow> [Log ErrorLevel None (response_code_msg 530)]
         | Inr m \<Rightarrow>
             if Success m \<or> Errors m = [] then [Log ErrorLevel None returned_success_msg]
             else map (\<lambda>e. Log ErrorLevel None (failed_validation_msg e)) (Errors m)) @
        [SignalStop], Returned None) \<and>
     (\<exists>rest. error_logs (fst (Run c w)) = no_connector_msg # rest \<and> rest \<noteq> [] \<and>
        no_connector_msg \<notin> set rest)"
proof
  assume h: "parseFilters (flag_level c) (flag_event c) = Inr f \<and>
   env_Dial w = DialError err (Some resp) \<and> StatusCode resp = 530"
  then have run: "Run c w =
       ([SignalNotify, Dial (dial_url c) (dial_header c), Log ErrorLevel None no_connector_msg] @
        (case Body resp of
           Inl e \<Rightarrow> [Log ErrorLevel None (response_code_msg 530)]
         | Inr m \<Rightarrow>
             if Success m \<or> Errors m = [] then [Log ErrorLevel None returned_success_msg]
             else map (\<lambda>e. Log ErrorLevel None (failed_validation_msg e)) (Errors m)) @
        [SignalStop], Returned None)"
    by (simp add: Run_def handleValidationError_def StatusSwitchingProtocols_def split: sum.splits)
  have "\<exists>rest. error_logs (fst (Run c w)) = no_connector_msg # rest \<and> rest \<noteq> [] \<and>
        no_connector_msg \<notin> set rest"
  proof (cases "Body resp")
    case (Inl e)
    with run show ?thesis by (simp add: no_connector_neq)
  next
    case (Inr m)
    show ?thesis
    proof (cases "Success m \<or> Errors m = []")
      case True
      with run Inr show ?thesis by (auto simp: no_connector_neq)
    next
      case False
      with run Inr have "error_logs (fst (Run c w)) =
          no_connector_msg # map failed_validation_msg (Errors m)"
        by (simp add: error_logs_map)
      moreover from False have "map failed_validation_msg (Errors m) \<noteq> []" by simp
      moreover have "no_connector_msg \<notin> set (map failed_validation_msg (Errors m))"
        using no_connector_neq(3) by auto
      ultimately show ?thesis by blast
    qed
  qed
  with run show "Run c w =
       ([SignalNotify, Dial (dial_url c) (dial_header c), Log ErrorLevel None no_connector_msg] @
        (case Body resp of
           Inl e \<Rightarrow> [Log ErrorLevel None (response_code_msg 530)]
         | Inr m \<Rightarrow>
             if Success m \<or> Errors m = [] then [Log ErrorLevel None returned_success_msg]
             else map (\<lambda>e. Log ErrorLevel None (failed_validation_msg e)) (Errors m)) @
        [SignalStop], Returned None) \<and>
     (\<exists>rest. error_logs (fst (Run c w)) = no_connector_msg # rest \<and> rest \<noteq> [] \<and>
        no_connector_msg \<notin> set rest)"
    by simp
qed

theorem C1_no_connector_then_body_witness:
  "Run \<lparr>flag_level = ''debug'', flag_event = [], flag_management_hostname = ''management.argotunnel.com'',
        flag_token = ''tok'', flag_trace = ''t1'', version = ''2023.4.0''\<rparr>
       \<lparr>env_Dial = DialError (OtherError ''expected handshake response status code 101 but got 530'')
          (Some \<lparr>StatusCode = 530, Body = Inr \<lparr>Success = False,
                   Errors = [\<lparr>Code = 1033, Message = ''tunnel error''\<rparr>]\<rparr>\<rparr>),
        env_WriteEvent = None, reader_before = [], outside = None, reader_during = []\<rparr> =
     ([SignalNotify,
       Dial \<lparr>Scheme = ''wss'', Host = ''management.argotunnel.com'', Path = ''/logs'',
             RawQuery = ''access_token=tok''\<rparr>
            [(''User-Agent'', [''cloudflared/2023.4.0'']), (''cf-trace-id'', [''t1''])],
       Log ErrorLevel None ''no cloudflared connector available or reachable via management request (a recent version of cloudflared is required to use streaming logs)'',
       Log ErrorLevel None ''management request failed validation: (1033) tunnel error'',
       SignalStop], Returned None)"
  using C1_no_connector_then_body[of
       "\<lparr>flag_level = ''debug'', flag_event = [], flag_management_hostname = ''management.argotunnel.com'',
        flag_token = ''tok'', flag_trace = ''t1'', version = ''2023.4.0''\<rparr>"
       "Some \<lparr>Level = Some Debug, Events = []\<rparr>"
       "\<lparr>env_Dial = DialError (OtherError ''expected handshake response status code 101 but got 530'')
          (Some \<lparr>StatusCode = 530, Body = Inr \<lparr>Success = False,
                   Errors = [\<lparr>Code = 1033, Message = ''tunnel error''\<rparr>]\<rparr>\<rparr>),
        env_WriteEvent = None, reader_before = [], outside = None, reader_during = []\<rparr>"
       "OtherError ''expected handshake response status code 101 but got 530''"
       "\<lparr>StatusCode = 530, Body = Inr \<lparr>Success = False,
                   Errors = [\<lparr>Code = 1033, Message = ''tunnel error''\<rparr>]\<rparr>\<rparr>"]
  by (simp add: parseFilters_def ParseLogLevel_def dial_url_def dial_header_def
      no_connector_msg_def failed_validation_msg_def fmt_d_def string_of_nat.simps digit_char_def)

text \<open>
  C1 as stated fails: with status 530 and a body that does not decode, the no-connector
  message is followed by the message with the status code.
\<close>

theorem C1_counterexample:
  "error_logs (fst (Run
       \<lparr>flag_level = ''debug'', flag_event = [], flag_management_hostname = ''management.argotunnel.com'',
        flag_token = ''tok'', flag_trace = [], version = ''2023.4.0''\<rparr>
       \<lparr>env_Dial = DialError (OtherError ''expected handshake response status code 101 but got 530'')
          (Some \<lparr>StatusCode = 530, Body = Inl (OtherError ''EOF'')\<rparr>),
        env_WriteEvent = None, reader_before = [], outside = None, reader_during = []\<rparr>)) =
     [''no cloudflared connector available or reachable via management request (a recent version of cloudflared is required to use streaming logs)'',
      ''unable to start management log streaming session: http response code returned 530''] \<and>
   error_logs (fst (Run
       \<lparr>flag_level = ''debug'', flag_event = [], flag_management_hostname = ''management.argotunnel.com'',
        flag_token = ''tok'', flag_trace = [], version = ''2023.4.0''\<rparr>
       \<lparr>env_Dial = DialError (OtherError ''expected handshake response status code 101 but got 530'')
          (Some \<lparr>StatusCode = 530, Body = Inl (OtherError ''EOF'')\<rparr>),
        env_WriteEvent = None, reader_before = [], outside = None, reader_during = []\<rparr>)) \<noteq>
     [no_connector_msg]"
  by (simp add: Run_def parseFilters_def ParseLogLevel_def handleValidationError_def
      StatusSwitchingProtocols_def no_connector_msg_def response_code_msg_def
      fmt_d_def string_of_nat.simps digit_char_def)

text \<open>
  C2, as the code has it: when the dial fails with a response whose status is not 101,
  the run logs what \<^verbatim>\<open>handleValidationError\<close> gives and returns nil. After the
  no-connector message of status 530, if any: a decoded body with a false success flag and
  a non-empty error list gives one message per error, in order, with its code and
  message; a body that does not decode gives the single message with the status code; a
  decoded body with the success flag set or no error gives the single returned-success
  message, which is a fixed text.
\<close>

theorem C2_validation_messages:
  "parseFilters (flag_level c) (flag_event c) = Inr f \<and>
   env_Dial w = DialError err (Some resp) \<and> StatusCode resp \<noteq> StatusSwitchingProtocols \<longrightarrow>
     Run c w =
       ([SignalNotify, Dial (dial_url c) (dial_header c)] @ handleValidationError resp @
        [SignalStop], Returned None) \<and>
     (\<forall>m. Body resp = Inr m \<and> \<not> Success m \<and> Errors m \<noteq> [] \<longrightarrow>
        handleValidationError resp =
          (if StatusCode resp = 530 then [Log ErrorLevel None no_connector_msg] else []) @
          map (\<lambda>e. Log ErrorLevel None
                 (''management request failed validation: ('' @ fmt_d (Code e) @ '') '' @ Message e))
              (Errors m)) \<and>
     (\<forall>e. Body resp = Inl e \<longrightarrow>
        handleValidationError resp =
          (if StatusCode resp = 530 then [Log ErrorLevel None no_connector_msg] else []) @
          [Log ErrorLevel None
             (''unable to start management log streaming session: http response code returned '' @
              fmt_d (StatusCode resp))]) \<and>
     (\<forall>m. Body resp = Inr m \<and> (Success m \<or> Errors m = []) \<longrightarrow>
        handleValidationError resp =
          (if StatusCode resp = 530 then [Log ErrorLevel None no_connector_msg] else []) @
          [Log ErrorLevel None
             ''management tunnel validation returned success with invalid HTTP response code to convert to a WebSocket request''])"
proof (intro impI conjI allI)
  assume h: "parseFilters (flag_level c) (flag_event c) = Inr f \<and>
   env_Dial w = DialError err (Some resp) \<and> StatusCode resp \<noteq> StatusSwitchingProtocols"
  then show "Run c w =
       ([SignalNotify, Dial (dial_url c) (dial_header c)] @ handleValidationError resp @
        [SignalStop], Returned None)"
    by (simp add: Run_def)
next
  fix m
  assume "Body resp = Inr m \<and> \<not> Success m \<and> Errors m \<noteq> []"
  then show "handleValidationError resp =
          (if StatusCode resp = 530 then [Log ErrorLevel None no_connector_msg] else []) @
          map (\<lambda>e. Log ErrorLevel None
                 (''management request failed validation: ('' @ fmt_d (Code e) @ '') '' @ Message e))
              (Errors m)"
    by (simp add: handleValidationError_def failed_validation_msg_def)
next
  fix e
  assume "Body resp = Inl e"
  then show "handleValidationError resp =
          (if StatusCode resp = 530 then [Log ErrorLevel None no_connector_msg] else []) @
          [Log ErrorLevel None
             (''unable to start management log streaming session: http response code returned '' @
              fmt_d (StatusCode resp))]"
    by (simp add: handleValidationError_def response_code_msg_def)
next
  fix m
  assume "Body resp = Inr m \<and> (Success m \<or> Errors m = [])"
  then show "handleValidationError resp =
          (if StatusCode resp = 530 then [Log ErrorLevel None no_connector_msg] else []) @
          [Log ErrorLevel None
             ''management tunnel validation returned success with invalid HTTP response code to convert to a WebSocket request'']"
    by (auto simp: handleValidationError_def returned_success_msg_def)
qed

theorem C2_validation_messages_witness:
  "Run \<lparr>flag_level = ''info'', flag_event = [''http''], flag_management_hostname = ''management.argotunnel.com'',
        flag_token = ''tok'', flag_trace = [], version = ''2023.4.0''\<rparr>
       \<lparr>env_Dial = DialError (OtherError ''expected handshake response status code 101 but got 403'')
          (Some \<lparr>StatusCode = 403, Body = Inr \<lparr>Success = False,
                   Errors = [\<lparr>Code = 1000, Message = ''missing token''\<rparr>,
                             \<lparr>Code = 1001, Message = ''expired''\<rparr>]\<rparr>\<rparr>),
        env_WriteEvent = None, reader_before = [], outside = None, reader_during = []\<rparr> =
     ([SignalNotify,
       Dial \<lparr>Scheme = ''wss'', Host = ''management.argotunnel.com'', Path = ''/logs'',
             RawQuery = ''access_token=tok''\<rparr> [(''User-Agent'', [''cloudflared/2023.4.0''])],
       Log ErrorLevel None ''management request failed validation: (1000) missing token'',
       Log ErrorLevel None ''management request failed validation: (1001) expired'',
       SignalStop], Returned None)"
  using C2_validation_messages[of
       "\<lparr>flag_level = ''info'', flag_event = [''http''], flag_management_hostname = ''management.argotunnel.com'',
        flag_token = ''tok'', flag_trace = [], version = ''2023.4.0''\<rparr>"
       "Some \<lparr>Level = Some Info, Events = [HTTP]\<rparr>"
       "\<lparr>env_Dial = DialError (OtherError ''expected handshake response status code 101 but got 403'')
          (Some \<lparr>StatusCode = 403, Body = Inr \<lparr>Success = False,
                   Errors = [\<lparr>Code = 1000, Message = ''missing token''\<rparr>,
                             \<lparr>Code = 1001, Message = ''expired''\<rparr>]\<rparr>\<rparr>),
        env_WriteEvent = None, reader_before = [], outside = None, reader_during = []\<rparr>"
       "OtherError ''expected handshake response status code 101 but got 403''"
       "\<lparr>StatusCode = 403, Body = Inr \<lparr>Success = False,
                   Errors = [\<lparr>Code = 1000, Message = ''missing token''\<rparr>,
                             \<lparr>Code = 1001, Message = ''expired''\<rparr>]\<rparr>\<rparr>"]
  by (simp add: parseFilters_def ParseLogLevel_def ParseLogEventType_def dial_url_def dial_header_def
      StatusSwitchingProtocols_def fmt_d_def string_of_nat.simps digit_char_def)

text \<open>
  C2 as stated fails: with status 400 and a decoded body whose success flag is set, the
  message logged is the fixed returned-success text, which is not the message with the
  status code and has no 400 in it.
\<close>

theorem C2_counterexample:
  "handleValidationError \<lparr>StatusCode = 400, Body = Inr \<lparr>Success = True, Errors = []\<rparr>\<rparr> =
     [Log ErrorLevel None
        ''management tunnel validation returned success with invalid HTTP response code to convert to a WebSocket request''] \<and>
   handleValidationError \<lparr>StatusCode = 400, Body = Inr \<lparr>Success = True, Errors = []\<rparr>\<rparr> \<noteq>
     [Log ErrorLevel None
        ''unable to start management log streaming session: http response code returned 400''] \<and>
   \<not> sublist (fmt_d 400)
        ''management tunnel validation returned success with invalid HTTP response code to convert to a WebSocket request''"
proof -
  have d: "fmt_d 400 = ''400''"
    by (simp add: fmt_d_def string_of_nat.simps digit_char_def)
  have s: "\<not> sublist ''400''
        ''management tunnel validation returned success with invalid HTTP response code to convert to a WebSocket request''"
    by code_simp
  show ?thesis
    using s by (simp add: d handleValidationError_def returned_success_msg_def)
qed

subsection \<open>The wait loop and the result of the run\<close>









end
